theory Spec2Isabelle
  imports Main "HOL-Library.Char_ord" "HOL-Library.List_Lexorder" "HOL-Library.Sublist"
begin

section \<open>Strings of the classifier\<close>

text \<open>
  A Python \<open>str\<close> is a sequence of code points. The model uses \<open>string\<close>, reading each
  \<open>char\<close> as one code point below 256. On that range \<open>str.lower()\<close> maps \<open>A\<close>..\<open>Z\<close> and
  the accented capitals 192..222 (without the multiplication sign 215) to the code point 32
  above, and leaves every other code point alone.
\<close>

definition lower_char :: "char \<Rightarrow> char" where
  "lower_char c =
     (let n = (of_char c :: nat) in
      if (65 \<le> n \<and> n \<le> 90) \<or> (192 \<le> n \<and> n \<le> 222 \<and> n \<noteq> 215)
      then char_of (n + 32) else c)"

definition lower :: "string \<Rightarrow> string" where
  "lower s = map lower_char s"

text \<open>\<open>w in s\<close> on strings: \<open>w\<close> occurs in \<open>s\<close> as a contiguous substring.\<close>

fun contains :: "string \<Rightarrow> string \<Rightarrow> bool" where
  "contains w [] = (w = [])"
| "contains w (c # cs) = (prefix w (c # cs) \<or> contains w cs)"

text \<open>\<open>any(word in title_lower for word in ws)\<close>.\<close>

definition any_in :: "string list \<Rightarrow> string \<Rightarrow> bool" where
  "any_in ws title_lower = list_ex (\<lambda>word. contains word title_lower) ws"

section \<open>The rules of \<open>get_game_categories\<close>, in source order\<close>

text \<open>
  The working set \<open>categories\<close> is a set of strings. Each rule is one \<open>if\<close> statement of
  the source, as a function from the lower-cased title and the working set to the new
  working set; \<open>update\<close> is union, \<open>add\<close> is \<open>insert\<close>, \<open>discard\<close> is set difference.
\<close>

text \<open>Lines 16-17: the current category is the starting point, unless it is empty.\<close>

definition seed :: "string \<Rightarrow> string set" where
  "seed current_category = (if current_category \<noteq> [] then {current_category} else {})"

text \<open>Lines 20-21: strategy games (2-player board games).\<close>

definition board_rule :: "string \<Rightarrow> string set \<Rightarrow> string set" where
  "board_rule title_lower categories =
     (if any_in [''chess'', ''checkers'', ''go '', ''backgammon''] title_lower
      then categories \<union> {''strategy'', ''2-player'', ''classic''}
      else categories)"

text \<open>Lines 24-26: Connect Four variants.\<close>

definition connect_four_rule :: "string \<Rightarrow> string set \<Rightarrow> string set" where
  "connect_four_rule title_lower categories =
     (if contains ''connect four'' title_lower \<or> contains ''connect-four'' title_lower
      then (categories \<union> {''puzzle'', ''2-player'', ''strategy''}) - {''simulation''}
      else categories)"

text \<open>Lines 29-31: Tic-tac-toe variants.\<close>

definition tic_tac_toe_rule :: "string \<Rightarrow> string set \<Rightarrow> string set" where
  "tic_tac_toe_rule title_lower categories =
     (if contains ''tic'' title_lower \<and> contains ''tac'' title_lower
         \<and> contains ''toe'' title_lower
      then (categories \<union> {''puzzle'', ''2-player'', ''classic''}) - {''simulation''}
      else categories)"

text \<open>Lines 34-35: racing games.\<close>

definition racing_rule :: "string \<Rightarrow> string set \<Rightarrow> string set" where
  "racing_rule title_lower categories =
     (if any_in [''racing'', ''race'', ''circuit'', ''speed'', ''drift''] title_lower
      then categories \<union> {''racing'', ''arcade''}
      else categories)"

text \<open>Lines 38-39: puzzle games.\<close>

definition puzzle_rule :: "string \<Rightarrow> string set \<Rightarrow> string set" where
  "puzzle_rule title_lower categories =
     (if any_in [''puzzle'', ''match'', ''tetris'', ''blocks'', ''crystal'', ''gem'', ''swap'']
           title_lower
      then insert ''puzzle'' categories
      else categories)"

text \<open>Lines 42-43: card games.\<close>

definition card_rule :: "string \<Rightarrow> string set \<Rightarrow> string set" where
  "card_rule title_lower categories =
     (if any_in [''poker'', ''cards'', ''solitaire'', ''blackjack''] title_lower
      then categories \<union> {''classic'', ''2-player''}
      else categories)"

text \<open>Lines 46-47: arcade games.\<close>

definition arcade_rule :: "string \<Rightarrow> string set \<Rightarrow> string set" where
  "arcade_rule title_lower categories =
     (if any_in [''blaster'', ''asteroid'', ''space'', ''shooter'', ''invader'', ''breakout'',
                 ''pong''] title_lower
      then categories \<union> {''arcade'', ''classic''}
      else categories)"

text \<open>Lines 50-51: tower defense.\<close>

definition defense_rule :: "string \<Rightarrow> string set \<Rightarrow> string set" where
  "defense_rule title_lower categories =
     (if any_in [''tower'', ''defense'', ''defend'', ''turret''] title_lower
      then categories \<union> {''defense'', ''strategy''}
      else categories)"

text \<open>Lines 54-59: AI-specific games, with the inner test on the working set.\<close>

definition ai_rule :: "string \<Rightarrow> string set \<Rightarrow> string set" where
  "ai_rule title_lower categories =
     (if any_in [''ai '', ''algorithm'', ''neural'', ''matrix'', ''nexus'', ''quantum'']
           title_lower
      then (if ''ai-exclusive'' \<in> categories
            then categories \<union> {''ai-exclusive'', ''strategy''}
            else insert ''strategy'' categories)
      else categories)"

text \<open>Lines 62-65: multiplayer indicators.\<close>

definition multiplayer_rule :: "string \<Rightarrow> string set \<Rightarrow> string set" where
  "multiplayer_rule title_lower categories =
     (if any_in [''network'', ''online'', ''multi'', ''battle'', ''versus'', ''pvp'']
           title_lower
      then (if contains ''multi'' title_lower
            then insert ''4-player'' (insert ''multiplayer'' categories)
            else insert ''multiplayer'' categories)
      else categories)"

text \<open>Lines 68-69: 2-player indicators (but not multiplayer lobby games).\<close>

definition two_player_rule :: "string \<Rightarrow> string set \<Rightarrow> string set" where
  "two_player_rule title_lower categories =
     (if any_in [''vs '', ''versus'', ''battle'', ''duel''] title_lower
         \<and> \<not> contains ''network'' title_lower
      then insert ''2-player'' categories
      else categories)"

text \<open>Lines 72-73: adventure/RPG games.\<close>

definition adventure_rule :: "string \<Rightarrow> string set \<Rightarrow> string set" where
  "adventure_rule title_lower categories =
     (if any_in [''quest'', ''adventure'', ''exploration'', ''journey''] title_lower
      then insert ''adventure'' categories
      else categories)"

text \<open>Lines 76-77: simulation games.\<close>

definition simulation_rule :: "string \<Rightarrow> string set \<Rightarrow> string set" where
  "simulation_rule title_lower categories =
     (if any_in [''simulator'', ''tycoon'', ''management'', ''builder''] title_lower
      then insert ''simulation'' categories
      else categories)"

text \<open>Lines 80-81: classic games.\<close>

definition classic_rule :: "string \<Rightarrow> string set \<Rightarrow> string set" where
  "classic_rule title_lower categories =
     (if any_in [''classic'', ''retro'', ''vintage'', ''old school''] title_lower
      then insert ''classic'' categories
      else categories)"

text \<open>Lines 84-87: remove contradictions.\<close>

definition resolve_contradictions :: "string \<Rightarrow> string set \<Rightarrow> string set" where
  "resolve_contradictions title_lower categories =
     (if ''2-player'' \<in> categories \<and> ''multiplayer'' \<in> categories
      then (if any_in [''chess'', ''checkers'', ''connect four'', ''tic tac toe''] title_lower
            then categories - {''multiplayer''}
            else categories)
      else categories)"

text \<open>Lines 90-91: ensure at least one category.\<close>

definition fallback :: "string set \<Rightarrow> string set" where
  "fallback categories = (if categories = {} then insert ''arcade'' categories else categories)"

section \<open>The classifier\<close>

text \<open>
  Lines 19-81: the fourteen keyword rules applied to a working set in the order of the
  source.
\<close>

definition keyword_rules :: "string \<Rightarrow> string set \<Rightarrow> string set" where
  "keyword_rules title_lower categories =
     classic_rule title_lower
      (simulation_rule title_lower
        (adventure_rule title_lower
          (two_player_rule title_lower
            (multiplayer_rule title_lower
              (ai_rule title_lower
                (defense_rule title_lower
                  (arcade_rule title_lower
                    (card_rule title_lower
                      (puzzle_rule title_lower
                        (racing_rule title_lower
                          (tic_tac_toe_rule title_lower
                            (connect_four_rule title_lower
                              (board_rule title_lower categories)))))))))))))"

text \<open>The working set at line 83, before the contradictions are removed.\<close>

definition working_set :: "string \<Rightarrow> string \<Rightarrow> string set" where
  "working_set title current_category = keyword_rules (lower title) (seed current_category)"

text \<open>Lines 10-93. \<open>sorted(list(categories))\<close> is the ascending list of the set.\<close>

definition get_game_categories :: "string \<Rightarrow> string \<Rightarrow> string \<Rightarrow> string \<Rightarrow> string list" where
  "get_game_categories title current_category genre description =
     sorted_list_of_set
       (fallback (resolve_contradictions (lower title) (working_set title current_category)))"

text \<open>
  No keyword rule fires: the condition of every \<open>if\<close> statement of lines 20-80 is false.
\<close>

definition no_rule_fires :: "string \<Rightarrow> bool" where
  "no_rule_fires title_lower =
     (\<not> any_in [''chess'', ''checkers'', ''go '', ''backgammon''] title_lower
      \<and> \<not> (contains ''connect four'' title_lower \<or> contains ''connect-four'' title_lower)
      \<and> \<not> (contains ''tic'' title_lower \<and> contains ''tac'' title_lower
             \<and> contains ''toe'' title_lower)
      \<and> \<not> any_in [''racing'', ''race'', ''circuit'', ''speed'', ''drift''] title_lower
      \<and> \<not> any_in [''puzzle'', ''match'', ''tetris'', ''blocks'', ''crystal'', ''gem'', ''swap'']
             title_lower
      \<and> \<not> any_in [''poker'', ''cards'', ''solitaire'', ''blackjack''] title_lower
      \<and> \<not> any_in [''blaster'', ''asteroid'', ''space'', ''shooter'', ''invader'', ''breakout'',
                   ''pong''] title_lower
      \<and> \<not> any_in [''tower'', ''defense'', ''defend'', ''turret''] title_lower
      \<and> \<not> any_in [''ai '', ''algorithm'', ''neural'', ''matrix'', ''nexus'', ''quantum'']
             title_lower
      \<and> \<not> any_in [''network'', ''online'', ''multi'', ''battle'', ''versus'', ''pvp'']
             title_lower
      \<and> \<not> (any_in [''vs '', ''versus'', ''battle'', ''duel''] title_lower
             \<and> \<not> contains ''network'' title_lower)
      \<and> \<not> any_in [''quest'', ''adventure'', ''exploration'', ''journey''] title_lower
      \<and> \<not> any_in [''simulator'', ''tycoon'', ''management'', ''builder''] title_lower
      \<and> \<not> any_in [''classic'', ''retro'', ''vintage'', ''old school''] title_lower)"

text \<open>The labels that the rules write as literals, without \<open>ai-exclusive\<close>.\<close>

definition rule_labels :: "string set" where
  "rule_labels = {''2-player'', ''4-player'', ''adventure'', ''arcade'', ''classic'',
                  ''defense'', ''multiplayer'', ''puzzle'', ''racing'', ''simulation'',
                  ''strategy''}"

section \<open>Substring containment\<close>

text \<open>\<open>contains\<close> is the contiguous-sublist relation of the library.\<close>

lemma contains_iff_sublist: "contains w s \<longleftrightarrow> sublist w s"
  by (induction s) (simp_all add: sublist_Cons_right)

section \<open>Facts about the single rules\<close>

text \<open>Every rule keeps the working set finite.\<close>

lemma finite_seed: "finite (seed c)"
  by (simp add: seed_def)

lemma finite_rules:
  "finite (board_rule low S) = finite S"
  "finite (connect_four_rule low S) = finite S"
  "finite (tic_tac_toe_rule low S) = finite S"
  "finite (racing_rule low S) = finite S"
  "finite (puzzle_rule low S) = finite S"
  "finite (card_rule low S) = finite S"
  "finite (arcade_rule low S) = finite S"
  "finite (defense_rule low S) = finite S"
  "finite (ai_rule low S) = finite S"
  "finite (multiplayer_rule low S) = finite S"
  "finite (two_player_rule low S) = finite S"
  "finite (adventure_rule low S) = finite S"
  "finite (simulation_rule low S) = finite S"
  "finite (classic_rule low S) = finite S"
  "finite (resolve_contradictions low S) = finite S"
  "finite (fallback S) = finite S"
  by (simp_all add: seed_def board_rule_def connect_four_rule_def tic_tac_toe_rule_def
      racing_rule_def puzzle_rule_def card_rule_def arcade_rule_def defense_rule_def
      ai_rule_def multiplayer_rule_def two_player_rule_def adventure_rule_def
      simulation_rule_def classic_rule_def resolve_contradictions_def fallback_def)

lemma finite_keyword_rules: "finite (keyword_rules low S) = finite S"
  by (simp add: keyword_rules_def finite_rules)

lemma fallback_nonempty: "fallback S \<noteq> {}"
  by (simp add: fallback_def)

text \<open>The returned list has exactly the labels of the final working set.\<close>

lemma set_get_game_categories:
  "set (get_game_categories t c g d) =
     fallback (resolve_contradictions (lower t) (working_set t c))"
  by (simp add: get_game_categories_def working_set_def finite_rules
      finite_keyword_rules finite_seed)

text \<open>A label that no rule writes is in the new working set exactly when it was in the old.\<close>

lemma foreign_label_rules:
  assumes "x \<notin> rule_labels"
  shows "x \<in> board_rule low S \<longleftrightarrow> x \<in> S"
    and "x \<in> connect_four_rule low S \<longleftrightarrow> x \<in> S"
    and "x \<in> tic_tac_toe_rule low S \<longleftrightarrow> x \<in> S"
    and "x \<in> racing_rule low S \<longleftrightarrow> x \<in> S"
    and "x \<in> puzzle_rule low S \<longleftrightarrow> x \<in> S"
    and "x \<in> card_rule low S \<longleftrightarrow> x \<in> S"
    and "x \<in> arcade_rule low S \<longleftrightarrow> x \<in> S"
    and "x \<in> defense_rule low S \<longleftrightarrow> x \<in> S"
    and "x \<in> ai_rule low S \<longleftrightarrow> x \<in> S"
    and "x \<in> multiplayer_rule low S \<longleftrightarrow> x \<in> S"
    and "x \<in> two_player_rule low S \<longleftrightarrow> x \<in> S"
    and "x \<in> adventure_rule low S \<longleftrightarrow> x \<in> S"
    and "x \<in> simulation_rule low S \<longleftrightarrow> x \<in> S"
    and "x \<in> classic_rule low S \<longleftrightarrow> x \<in> S"
    and "x \<in> resolve_contradictions low S \<longleftrightarrow> x \<in> S"
    and "x \<in> fallback S \<longleftrightarrow> x \<in> S"
  using assms unfolding rule_labels_def
  by (auto simp add: board_rule_def connect_four_rule_def tic_tac_toe_rule_def
      racing_rule_def puzzle_rule_def card_rule_def arcade_rule_def defense_rule_def
      ai_rule_def multiplayer_rule_def two_player_rule_def adventure_rule_def
      simulation_rule_def classic_rule_def resolve_contradictions_def fallback_def)

lemma foreign_label_keyword_rules:
  "x \<notin> rule_labels \<Longrightarrow> x \<in> keyword_rules low S \<longleftrightarrow> x \<in> S"
  by (simp add: keyword_rules_def foreign_label_rules)

text \<open>Only \<open>simulation\<close> and \<open>multiplayer\<close> are ever discarded.\<close>

lemma rules_keep:
  "x \<in> S \<Longrightarrow> x \<in> board_rule low S"
  "x \<in> S \<Longrightarrow> x \<noteq> ''simulation'' \<Longrightarrow> x \<in> connect_four_rule low S"
  "x \<in> S \<Longrightarrow> x \<noteq> ''simulation'' \<Longrightarrow> x \<in> tic_tac_toe_rule low S"
  "x \<in> S \<Longrightarrow> x \<in> racing_rule low S"
  "x \<in> S \<Longrightarrow> x \<in> puzzle_rule low S"
  "x \<in> S \<Longrightarrow> x \<in> card_rule low S"
  "x \<in> S \<Longrightarrow> x \<in> arcade_rule low S"
  "x \<in> S \<Longrightarrow> x \<in> defense_rule low S"
  "x \<in> S \<Longrightarrow> x \<in> ai_rule low S"
  "x \<in> S \<Longrightarrow> x \<in> multiplayer_rule low S"
  "x \<in> S \<Longrightarrow> x \<in> two_player_rule low S"
  "x \<in> S \<Longrightarrow> x \<in> adventure_rule low S"
  "x \<in> S \<Longrightarrow> x \<in> simulation_rule low S"
  "x \<in> S \<Longrightarrow> x \<in> classic_rule low S"
  "x \<in> S \<Longrightarrow> x \<noteq> ''multiplayer'' \<Longrightarrow> x \<in> resolve_contradictions low S"
  "x \<in> S \<Longrightarrow> x \<in> fallback S"
  by (auto simp add: board_rule_def connect_four_rule_def tic_tac_toe_rule_def
      racing_rule_def puzzle_rule_def card_rule_def arcade_rule_def defense_rule_def
      ai_rule_def multiplayer_rule_def two_player_rule_def adventure_rule_def
      simulation_rule_def classic_rule_def resolve_contradictions_def fallback_def)

lemma keyword_rules_keep:
  "x \<in> S \<Longrightarrow> x \<noteq> ''simulation'' \<Longrightarrow> x \<in> keyword_rules low S"
  by (simp add: keyword_rules_def rules_keep)


lemma in_result_iff:
  "x \<in> set (get_game_categories t c g d) \<longleftrightarrow>
     x \<in> fallback (resolve_contradictions (lower t) (working_set t c))"
  by (simp add: set_get_game_categories)

text \<open>A discarding rule whose condition is false leaves the working set as it is.\<close>

lemma rules_keep_unless:
  "x \<in> S \<Longrightarrow>
     (x = ''simulation'' \<longrightarrow>
        \<not> (contains ''connect four'' low \<or> contains ''connect-four'' low)) \<Longrightarrow>
     x \<in> connect_four_rule low S"
  "x \<in> S \<Longrightarrow>
     (x = ''simulation'' \<longrightarrow>
        \<not> (contains ''tic'' low \<and> contains ''tac'' low \<and> contains ''toe'' low)) \<Longrightarrow>
     x \<in> tic_tac_toe_rule low S"
  "x \<in> S \<Longrightarrow>
     (x = ''multiplayer'' \<longrightarrow>
        \<not> (''2-player'' \<in> S
            \<and> any_in [''chess'', ''checkers'', ''connect four'', ''tic tac toe''] low)) \<Longrightarrow>
     x \<in> resolve_contradictions low S"
  by (auto simp add: connect_four_rule_def tic_tac_toe_rule_def resolve_contradictions_def)

lemma ai_exclusive_foreign: "''ai-exclusive'' \<notin> rule_labels"
  by (simp add: rule_labels_def)

section \<open>Properties of the classifier\<close>

text \<open>
  C1: the returned list is never empty, whatever the four arguments; and when the condition of no keyword rule holds for the lower-cased title and the current category is empty, the result is exactly the one-element list \<open>arcade\<close>.
\<close>

theorem C1_nonempty:
  "1 \<le> length (get_game_categories title current_category genre description)
   \<and> (no_rule_fires (lower title)
        \<longrightarrow> get_game_categories title [] genre description = [''arcade''])"
proof
  let ?S = "fallback (resolve_contradictions (lower title) (working_set title current_category))"
  have "finite ?S"
    by (simp add: finite_rules working_set_def finite_keyword_rules finite_seed)
  moreover have "?S \<noteq> {}"
    by (rule fallback_nonempty)
  ultimately have "0 < card ?S"
    by (simp add: card_gt_0_iff)
  then show "1 \<le> length (get_game_categories title current_category genre description)"
    by (simp add: get_game_categories_def)
next
  show "no_rule_fires (lower title)
        \<longrightarrow> get_game_categories title [] genre description = [''arcade'']"
  proof
    assume quiet: "no_rule_fires (lower title)"
    then have "keyword_rules (lower title) {} = {}"
      unfolding no_rule_fires_def keyword_rules_def
      by (simp add: board_rule_def connect_four_rule_def tic_tac_toe_rule_def
      racing_rule_def puzzle_rule_def card_rule_def arcade_rule_def defense_rule_def
      ai_rule_def multiplayer_rule_def two_player_rule_def adventure_rule_def
      simulation_rule_def classic_rule_def)
    then show "get_game_categories title [] genre description = [''arcade'']"
      by (simp add: get_game_categories_def working_set_def seed_def
          resolve_contradictions_def fallback_def)
  qed
qed

theorem C1_nonempty_witness:
  "no_rule_fires (lower ''Untitled Widget'')
   \<and> get_game_categories ''Untitled Widget'' [] [] [] = [''arcade'']
   \<and> 1 \<le> length (get_game_categories ''Untitled Widget'' [] [] [])"
proof -
  have quiet: "no_rule_fires (lower ''Untitled Widget'')"
    by code_simp
  from C1_nonempty [of "''Untitled Widget''" "[]" "[]" "[]"] quiet show ?thesis
    by blast
qed

text \<open>
  C2: for every input the returned list is strictly ascending in the lexical order of strings, and so has no label twice.
\<close>

theorem C2_sorted_distinct:
  "sorted_wrt (<) (get_game_categories title current_category genre description)
   \<and> distinct (get_game_categories title current_category genre description)"
  by (simp add: get_game_categories_def)

text \<open>
  C3: for the title \<open>Network Chess Battle\<close> and an empty current category, the lower-cased title contains \<open>network\<close>, \<open>battle\<close> and \<open>chess\<close>; \<open>multiplayer\<close> is not in the seed, is in the working set after the keyword rules together with \<open>2-player\<close>, and is gone after the contradictions are removed; the returned list is \<open>2-player\<close>, \<open>classic\<close>, \<open>strategy\<close>, for any genre and description.
\<close>

theorem C3_network_chess_battle:
  "contains ''network'' (lower ''Network Chess Battle'')
   \<and> contains ''battle'' (lower ''Network Chess Battle'')
   \<and> contains ''chess'' (lower ''Network Chess Battle'')
   \<and> ''multiplayer'' \<notin> seed []
   \<and> ''multiplayer'' \<in> working_set ''Network Chess Battle'' []
   \<and> ''2-player'' \<in> working_set ''Network Chess Battle'' []
   \<and> ''multiplayer'' \<notin> resolve_contradictions (lower ''Network Chess Battle'')
          (working_set ''Network Chess Battle'' [])
   \<and> get_game_categories ''Network Chess Battle'' [] genre description
        = [''2-player'', ''classic'', ''strategy'']"
  by code_simp

text \<open>
  C4: when the lower-cased title contains \<open>connect four\<close> or \<open>connect-four\<close>, the Connect Four rule leaves a working set that has \<open>puzzle\<close>, \<open>2-player\<close> and \<open>strategy\<close> and does not have \<open>simulation\<close>, whatever the set was before, and the three labels are in the returned list. For the title \<open>Connect Four Challenge\<close> with current category \<open>simulation\<close> the returned list is \<open>2-player\<close>, \<open>puzzle\<close>, \<open>strategy\<close>, which has no \<open>simulation\<close>.
\<close>

theorem C4_connect_four:
  "(contains ''connect four'' (lower title) \<or> contains ''connect-four'' (lower title)
      \<longrightarrow> ''puzzle'' \<in> connect_four_rule (lower title) S
        \<and> ''2-player'' \<in> connect_four_rule (lower title) S
        \<and> ''strategy'' \<in> connect_four_rule (lower title) S
        \<and> ''simulation'' \<notin> connect_four_rule (lower title) S
        \<and> ''puzzle'' \<in> set (get_game_categories title current_category genre description)
        \<and> ''2-player'' \<in> set (get_game_categories title current_category genre description)
        \<and> ''strategy'' \<in> set (get_game_categories title current_category genre description))
   \<and> get_game_categories ''Connect Four Challenge'' ''simulation'' genre description
        = [''2-player'', ''puzzle'', ''strategy'']"
proof (intro conjI impI)
  show "get_game_categories ''Connect Four Challenge'' ''simulation'' genre description
        = [''2-player'', ''puzzle'', ''strategy'']"
    by code_simp
next
  assume c4: "contains ''connect four'' (lower title) \<or> contains ''connect-four'' (lower title)"
  then show "''puzzle'' \<in> connect_four_rule (lower title) S"
    "''2-player'' \<in> connect_four_rule (lower title) S"
    "''strategy'' \<in> connect_four_rule (lower title) S"
    "''simulation'' \<notin> connect_four_rule (lower title) S"
    by (simp_all add: connect_four_rule_def)
  have step: "x \<in> set (get_game_categories title current_category genre description)"
    if "x \<in> connect_four_rule (lower title) (board_rule (lower title) (seed current_category))"
      and "x \<noteq> ''simulation''" and "x \<noteq> ''multiplayer''" for x
    unfolding in_result_iff working_set_def keyword_rules_def
    by (intro rules_keep(3-) that)
  from c4 show "''puzzle'' \<in> set (get_game_categories title current_category genre description)"
    "''2-player'' \<in> set (get_game_categories title current_category genre description)"
    "''strategy'' \<in> set (get_game_categories title current_category genre description)"
    by (simp_all add: step connect_four_rule_def)
qed

theorem C4_connect_four_witness:
  "(contains ''connect four'' (lower ''Connect Four Challenge'')
      \<or> contains ''connect-four'' (lower ''Connect Four Challenge''))
   \<and> ''simulation'' \<in> seed ''simulation''
   \<and> ''simulation'' \<notin> connect_four_rule (lower ''Connect Four Challenge'') (seed ''simulation'')
   \<and> ''puzzle'' \<in> set (get_game_categories ''Connect Four Challenge'' ''simulation'' [] [])
   \<and> ''2-player'' \<in> set (get_game_categories ''Connect Four Challenge'' ''simulation'' [] [])
   \<and> ''strategy'' \<in> set (get_game_categories ''Connect Four Challenge'' ''simulation'' [] [])
   \<and> ''simulation'' \<notin> set (get_game_categories ''Connect Four Challenge'' ''simulation'' [] [])"
proof -
  have hyp: "contains ''connect four'' (lower ''Connect Four Challenge'')
      \<or> contains ''connect-four'' (lower ''Connect Four Challenge'')"
    by code_simp
  have seeded: "''simulation'' \<in> seed ''simulation''"
    by (simp add: seed_def)
  from C4_connect_four [of "''Connect Four Challenge''" "seed ''simulation''" "''simulation''" "[]" "[]"]
    hyp seeded show ?thesis
    by simp
qed

text \<open>
  C5: the AI rule adds at most \<open>strategy\<close>: on every working set both of its branches give the set with \<open>strategy\<close> inserted, because the branch that names \<open>ai-exclusive\<close> runs only when that label is in the set already. The keyword rules neither add nor remove \<open>ai-exclusive\<close>, so it is in the returned list exactly when the current category is \<open>ai-exclusive\<close>.
\<close>

theorem C5_ai_exclusive:
  "ai_rule title_lower S
     = (if any_in [''ai '', ''algorithm'', ''neural'', ''matrix'', ''nexus'', ''quantum'']
             title_lower
        then insert ''strategy'' S else S)
   \<and> (''ai-exclusive'' \<in> keyword_rules title_lower S) = (''ai-exclusive'' \<in> S)
   \<and> (''ai-exclusive'' \<in> set (get_game_categories title current_category genre description))
       = (current_category = ''ai-exclusive'')"
proof (intro conjI)
  show "ai_rule title_lower S
     = (if any_in [''ai '', ''algorithm'', ''neural'', ''matrix'', ''nexus'', ''quantum'']
             title_lower
        then insert ''strategy'' S else S)"
    by (auto simp add: ai_rule_def)
  show "(''ai-exclusive'' \<in> keyword_rules title_lower S) = (''ai-exclusive'' \<in> S)"
    by (simp add: foreign_label_keyword_rules ai_exclusive_foreign)
  have "(''ai-exclusive'' \<in> set (get_game_categories title current_category genre description))
       = (''ai-exclusive'' \<in> seed current_category)"
    by (simp add: in_result_iff working_set_def foreign_label_keyword_rules
        foreign_label_rules ai_exclusive_foreign)
  also have "\<dots> = (current_category = ''ai-exclusive'')"
    by (auto simp add: seed_def)
  finally show "(''ai-exclusive'' \<in> set (get_game_categories title current_category genre description))
       = (current_category = ''ai-exclusive'')" .
qed

text \<open>
  C6: the rules discard no label other than \<open>simulation\<close> and \<open>multiplayer\<close>: any other label of a working set is still there after all keyword rules, the removal of contradictions and the fallback. A non-empty current category is in the returned list whenever no removal rule discards it, that is, unless it is \<open>simulation\<close> and the Connect Four or the tic-tac-toe condition holds, or it is \<open>multiplayer\<close> and the contradiction step fires; in particular every non-empty current category other than \<open>simulation\<close> and \<open>multiplayer\<close> is in the returned list.
\<close>

theorem C6_seed_kept:
  "(x \<in> S \<and> x \<noteq> ''simulation'' \<and> x \<noteq> ''multiplayer''
      \<longrightarrow> x \<in> fallback (resolve_contradictions title_lower (keyword_rules title_lower S)))
   \<and> (current_category \<noteq> []
        \<and> (current_category = ''simulation'' \<longrightarrow>
              \<not> (contains ''connect four'' (lower title)
                  \<or> contains ''connect-four'' (lower title))
              \<and> \<not> (contains ''tic'' (lower title) \<and> contains ''tac'' (lower title)
                     \<and> contains ''toe'' (lower title)))
        \<and> (current_category = ''multiplayer'' \<longrightarrow>
              \<not> (''2-player'' \<in> working_set title current_category
                  \<and> any_in [''chess'', ''checkers'', ''connect four'', ''tic tac toe'']
                       (lower title)))
      \<longrightarrow> current_category \<in> set (get_game_categories title current_category genre description))
   \<and> (current_category \<noteq> [] \<and> current_category \<noteq> ''simulation''
        \<and> current_category \<noteq> ''multiplayer''
      \<longrightarrow> current_category \<in> set (get_game_categories title current_category genre description))"
proof (intro conjI impI)
  assume "x \<in> S \<and> x \<noteq> ''simulation'' \<and> x \<noteq> ''multiplayer''"
  then show "x \<in> fallback (resolve_contradictions title_lower (keyword_rules title_lower S))"
    by (simp add: rules_keep keyword_rules_keep)
next
  assume "current_category \<noteq> [] \<and> current_category \<noteq> ''simulation''
        \<and> current_category \<noteq> ''multiplayer''"
  then show "current_category \<in> set (get_game_categories title current_category genre description)"
    by (simp add: in_result_iff working_set_def rules_keep keyword_rules_keep seed_def)
next
  assume hyp: "current_category \<noteq> []
        \<and> (current_category = ''simulation'' \<longrightarrow>
              \<not> (contains ''connect four'' (lower title)
                  \<or> contains ''connect-four'' (lower title))
              \<and> \<not> (contains ''tic'' (lower title) \<and> contains ''tac'' (lower title)
                     \<and> contains ''toe'' (lower title)))
        \<and> (current_category = ''multiplayer'' \<longrightarrow>
              \<not> (''2-player'' \<in> working_set title current_category
                  \<and> any_in [''chess'', ''checkers'', ''connect four'', ''tic tac toe'']
                       (lower title)))"
  then have seeded: "current_category \<in> seed current_category"
    by (simp add: seed_def)
  have "current_category \<in> working_set title current_category"
    unfolding working_set_def keyword_rules_def
    by (intro rules_keep(1,4-14) rules_keep_unless(1,2) seeded) (use hyp in simp_all)
  with hyp have "current_category
      \<in> resolve_contradictions (lower title) (working_set title current_category)"
    by (intro rules_keep_unless(3)) simp_all
  then show "current_category \<in> set (get_game_categories title current_category genre description)"
    by (simp add: in_result_iff rules_keep)
qed

theorem C6_seed_kept_witness:
  "''racing'' \<in> {''racing''} \<and> ''racing'' \<noteq> [] \<and> ''racing'' \<noteq> ''simulation''
   \<and> ''racing'' \<noteq> ''multiplayer''
   \<and> ''racing'' \<in> fallback (resolve_contradictions (lower ''Tic Tac Toe Battle'')
        (keyword_rules (lower ''Tic Tac Toe Battle'') {''racing''}))
   \<and> ''racing'' \<in> set (get_game_categories ''Tic Tac Toe Battle'' ''racing'' [] [])"
  using C6_seed_kept [of "''racing''" "{''racing''}" "lower ''Tic Tac Toe Battle''" "''racing''"
      "''Tic Tac Toe Battle''" "[]" "[]"]
  by simp

text \<open>
  C7: genre and description never influence the result: two calls with the same title and current category return the same list, whatever the genre and the description of each.
\<close>

theorem C7_genre_description_unused:
  "get_game_categories title current_category genre description
     = get_game_categories title current_category genre' description'"
  by (simp add: get_game_categories_def)

text \<open>
  C8: when the lower-cased title contains one of \<open>network\<close>, \<open>online\<close>, \<open>multi\<close>, \<open>battle\<close>, \<open>versus\<close>, \<open>pvp\<close>, the multiplayer rule leaves \<open>multiplayer\<close> in the working set; when it contains \<open>multi\<close>, the rule leaves \<open>4-player\<close> there too, and since no later step removes that label, the returned list of every title whose lower-casing contains \<open>multi\<close> has \<open>4-player\<close>.
\<close>

theorem C8_multiplayer:
  "(any_in [''network'', ''online'', ''multi'', ''battle'', ''versus'', ''pvp''] title_lower
      \<longrightarrow> ''multiplayer'' \<in> multiplayer_rule title_lower S)
   \<and> (contains ''multi'' title_lower \<longrightarrow> ''4-player'' \<in> multiplayer_rule title_lower S)
   \<and> (contains ''multi'' (lower title)
      \<longrightarrow> ''4-player'' \<in> set (get_game_categories title current_category genre description))"
proof (intro conjI impI)
  assume "any_in [''network'', ''online'', ''multi'', ''battle'', ''versus'', ''pvp''] title_lower"
  then show "''multiplayer'' \<in> multiplayer_rule title_lower S"
    by (simp add: multiplayer_rule_def)
next
  assume "contains ''multi'' title_lower"
  then show "''4-player'' \<in> multiplayer_rule title_lower S"
    by (simp add: multiplayer_rule_def any_in_def)
next
  assume "contains ''multi'' (lower title)"
  then have "''4-player'' \<in> multiplayer_rule (lower title) X" for X
    by (simp add: multiplayer_rule_def any_in_def)
  then show "''4-player'' \<in> set (get_game_categories title current_category genre description)"
    unfolding in_result_iff working_set_def keyword_rules_def
    by (intro rules_keep(11-)) simp_all
qed

theorem C8_multiplayer_witness:
  "contains ''multi'' (lower ''MULTI Tank Arena'')
   \<and> any_in [''network'', ''online'', ''multi'', ''battle'', ''versus'', ''pvp'']
        (lower ''MULTI Tank Arena'')
   \<and> ''multiplayer'' \<in> multiplayer_rule (lower ''MULTI Tank Arena'') {}
   \<and> ''4-player'' \<in> multiplayer_rule (lower ''MULTI Tank Arena'') {}
   \<and> ''4-player'' \<in> set (get_game_categories ''MULTI Tank Arena'' [] [] [])"
proof -
  have multi: "contains ''multi'' (lower ''MULTI Tank Arena'')"
    by code_simp
  have kw: "any_in [''network'', ''online'', ''multi'', ''battle'', ''versus'', ''pvp'']
        (lower ''MULTI Tank Arena'')"
    by code_simp
  from C8_multiplayer [of "lower ''MULTI Tank Arena''" "{}" "''MULTI Tank Arena''" "[]" "[]" "[]"]
    multi kw show ?thesis
    by blast
qed

text \<open>
  C9: every label of the returned list is the current category or one of the eleven labels \<open>2-player\<close>, \<open>4-player\<close>, \<open>adventure\<close>, \<open>arcade\<close>, \<open>classic\<close>, \<open>defense\<close>, \<open>multiplayer\<close>, \<open>puzzle\<close>, \<open>racing\<close>, \<open>simulation\<close>, \<open>strategy\<close>.
\<close>

theorem C9_vocabulary:
  "\<forall>label \<in> set (get_game_categories title current_category genre description).
     label = current_category \<or> label \<in> rule_labels"
proof
  fix label
  assume in_result: "label \<in> set (get_game_categories title current_category genre description)"
  show "label = current_category \<or> label \<in> rule_labels"
  proof (cases "label \<in> rule_labels")
    case True
    then show ?thesis ..
  next
    case False
    with in_result have "label \<in> seed current_category"
      by (simp add: in_result_iff working_set_def foreign_label_keyword_rules
          foreign_label_rules)
    then have "label = current_category"
      by (simp add: seed_def split: if_splits)
    then show ?thesis ..
  qed
qed

theorem C9_vocabulary_witness:
  "''homebrew'' \<in> set (get_game_categories ''Space Quest'' ''homebrew'' [] [])
   \<and> ''homebrew'' \<notin> rule_labels
   \<and> ''adventure'' \<in> set (get_game_categories ''Space Quest'' ''homebrew'' [] [])
   \<and> ''adventure'' \<noteq> ''homebrew'' \<and> ''adventure'' \<in> rule_labels"
proof -
  have members: "''homebrew'' \<in> set (get_game_categories ''Space Quest'' ''homebrew'' [] [])"
    "''adventure'' \<in> set (get_game_categories ''Space Quest'' ''homebrew'' [] [])"
    by code_simp+
  have "''homebrew'' \<notin> rule_labels"
    by (simp add: rule_labels_def)
  with C9_vocabulary [of "''Space Quest''" "''homebrew''" "[]" "[]"] members show ?thesis
    by auto
qed

text \<open>
  C10: the tic-tac-toe rule looks for \<open>tic\<close>, \<open>tac\<close> and \<open>toe\<close> separately, the contradiction step for the phrase \<open>tic tac toe\<close>. So for every title whose lower-casing contains the three pieces and a multiplayer keyword, but none of \<open>chess\<close>, \<open>checkers\<close>, \<open>connect four\<close>, \<open>tic tac toe\<close>, the returned list has both \<open>2-player\<close> and \<open>multiplayer\<close>.
\<close>

theorem C10_tictactoe_gap:
  "contains ''tic'' (lower title) \<and> contains ''tac'' (lower title)
     \<and> contains ''toe'' (lower title)
     \<and> any_in [''network'', ''online'', ''multi'', ''battle'', ''versus'', ''pvp'']
          (lower title)
     \<and> \<not> any_in [''chess'', ''checkers'', ''connect four'', ''tic tac toe''] (lower title)
   \<longrightarrow> ''2-player'' \<in> set (get_game_categories title current_category genre description)
     \<and> ''multiplayer'' \<in> set (get_game_categories title current_category genre description)"
proof (intro impI)
  assume hyp: "contains ''tic'' (lower title) \<and> contains ''tac'' (lower title)
     \<and> contains ''toe'' (lower title)
     \<and> any_in [''network'', ''online'', ''multi'', ''battle'', ''versus'', ''pvp'']
          (lower title)
     \<and> \<not> any_in [''chess'', ''checkers'', ''connect four'', ''tic tac toe''] (lower title)"
  have quiet: "resolve_contradictions (lower title) X = X" for X
    using hyp by (simp add: resolve_contradictions_def)
  have "''2-player'' \<in> tic_tac_toe_rule (lower title) X" for X
    using hyp by (simp add: tic_tac_toe_rule_def)
  then have two: "''2-player'' \<in> set (get_game_categories title current_category genre description)"
    unfolding in_result_iff working_set_def keyword_rules_def quiet
    by (intro rules_keep(4-14,16)) simp_all
  have "''multiplayer'' \<in> multiplayer_rule (lower title) X" for X
    using hyp by (simp add: multiplayer_rule_def)
  then have multi: "''multiplayer'' \<in> set (get_game_categories title current_category genre description)"
    unfolding in_result_iff working_set_def keyword_rules_def quiet
    by (intro rules_keep(11-14,16)) simp_all
  from two multi
  show "''2-player'' \<in> set (get_game_categories title current_category genre description)
     \<and> ''multiplayer'' \<in> set (get_game_categories title current_category genre description)"
    by simp
qed

theorem C10_tictactoe_gap_witness:
  "contains ''tic'' (lower ''TicTacToe Battle'') \<and> contains ''tac'' (lower ''TicTacToe Battle'')
     \<and> contains ''toe'' (lower ''TicTacToe Battle'')
     \<and> contains ''battle'' (lower ''TicTacToe Battle'')
     \<and> \<not> any_in [''chess'', ''checkers'', ''connect four'', ''tic tac toe'']
          (lower ''TicTacToe Battle'')
     \<and> ''2-player'' \<in> set (get_game_categories ''TicTacToe Battle'' [] [] [])
     \<and> ''multiplayer'' \<in> set (get_game_categories ''TicTacToe Battle'' [] [] [])"
proof -
  have hyps: "contains ''tic'' (lower ''TicTacToe Battle'')"
    "contains ''tac'' (lower ''TicTacToe Battle'')"
    "contains ''toe'' (lower ''TicTacToe Battle'')"
    "contains ''battle'' (lower ''TicTacToe Battle'')"
    "any_in [''network'', ''online'', ''multi'', ''battle'', ''versus'', ''pvp'']
          (lower ''TicTacToe Battle'')"
    "\<not> any_in [''chess'', ''checkers'', ''connect four'', ''tic tac toe'']
          (lower ''TicTacToe Battle'')"
    by code_simp+
  with C10_tictactoe_gap [of "''TicTacToe Battle''" "[]" "[]" "[]"] show ?thesis
    by blast
qed

end
